theory Spec2Isabelle
  imports
    Main
    "HOL-Library.Char_ord"
    "HOL-Library.List_Lexorder"
    "HOL-Library.Multiset"
begin

section \<open>The URL shortener of \<^verbatim>\<open>main.py\<close>\<close>

text \<open>
  The service keeps one SQLite table, created by \<^verbatim>\<open>init_db\<close>:
  \<^verbatim>\<open>CREATE TABLE IF NOT EXISTS urls (code TEXT PRIMARY KEY, url TEXT NOT NULL)\<close>.
  Every request handler opens its own connection (\<^verbatim>\<open>get_db\<close>), runs one SQL
  statement, commits if it wrote, and closes the connection.

  Text is a \<open>string\<close>, that is a list of 8-bit characters: the UTF-8 bytes SQLite
  stores. The order on \<open>string\<close> used below (\<open>Char_ord\<close> with \<open>List_Lexorder\<close>) is
  the lexicographic order on those bytes, a proper prefix first, which is what SQLite's
  default \<^verbatim>\<open>BINARY\<close> collation computes and which agrees with code point order on UTF-8.
\<close>

subsection \<open>Storage: the \<^verbatim>\<open>urls\<close> table and a connection to it\<close>

text \<open>
  A row is a pair of a code and a url, both text (\<^verbatim>\<open>url\<close> is \<^verbatim>\<open>NOT NULL\<close>, and
  the only statement that inserts a row binds a \<^verbatim>\<open>str\<close> to \<^verbatim>\<open>code\<close>). The table is
  the list of its rows in insertion order; nothing in the type forbids two rows with one
  code, so that uniqueness is a property of the statements, to be proved.
\<close>

type_synonym row = "string \<times> string"

type_synonym database = "row list"

text \<open>
  A value bound to a \<^verbatim>\<open>?\<close> placeholder. The create handler binds \<^verbatim>\<open>str\<close> fields only;
  the update handler binds whatever the request's JSON object holds under \<^verbatim>\<open>"url"\<close>.
  Two kinds of value are modelled: text, and JSON \<^verbatim>\<open>null\<close> (Python \<^verbatim>\<open>None\<close>, SQL
  \<^verbatim>\<open>NULL\<close>), whose fate the schema above decides. Numbers, arrays and objects are left
  out of the model.
\<close>

datatype param = PNone | PStr string

text \<open>
  The exceptions that leave a handler: \<^verbatim>\<open>sqlite3.IntegrityError\<close> (a constraint of the
  schema was violated) and \<^verbatim>\<open>HTTPException(status_code, detail)\<close>.
\<close>

datatype exn = IntegrityError | HTTPException nat string

text \<open>
  A connection sees the rows of the database file and works on its own copy of them
  inside the transaction that the first writing statement opens; \<^verbatim>\<open>conn.commit()\<close>
  writes the copy back, and closing without a commit discards it.
\<close>

record connection =
  committed :: database
  working :: database

definition init_db :: "database option \<Rightarrow> database" where
  \<comment> \<open>\<^verbatim>\<open>CREATE TABLE IF NOT EXISTS\<close>: a file without the table (\<open>None\<close>) gets an empty
      one, an existing table keeps its rows.\<close>
  "init_db file = (case file of None \<Rightarrow> [] | Some rows \<Rightarrow> rows)"

definition get_db :: "database \<Rightarrow> connection" where
  "get_db db = \<lparr>committed = db, working = db\<rparr>"

definition commit :: "connection \<Rightarrow> connection" where
  "commit conn = conn\<lparr>committed := working conn\<rparr>"

definition close :: "connection \<Rightarrow> database" where
  "close conn = committed conn"

definition execute_insert :: "connection \<Rightarrow> string \<Rightarrow> string \<Rightarrow> exn + connection" where
  \<comment> \<open>\<^verbatim>\<open>INSERT INTO urls (code, url) VALUES (?, ?)\<close>: the primary key rejects a code
      that some row already has; the statement then changes nothing.\<close>
  "execute_insert conn c u =
     (if c \<in> fst ` set (working conn) then Inl IntegrityError
      else Inr (conn\<lparr>working := working conn @ [(c, u)]\<rparr>))"

definition execute_update :: "connection \<Rightarrow> param \<Rightarrow> string \<Rightarrow> exn + connection \<times> nat" where
  \<comment> \<open>\<^verbatim>\<open>UPDATE urls SET url = ? WHERE code = ?\<close>, with \<^verbatim>\<open>cursor.rowcount\<close>: the number
      of rows matched. \<^verbatim>\<open>NOT NULL\<close> is checked on each row that is written, so a
      \<^verbatim>\<open>NULL\<close> fails only if a row matches.\<close>
  "execute_update conn new_url c =
     (let rowcount = length (filter (\<lambda>r. fst r = c) (working conn)) in
      case new_url of
        PStr u \<Rightarrow>
          Inr (conn\<lparr>working := map (\<lambda>r. if fst r = c then (fst r, u) else r) (working conn)\<rparr>,
               rowcount)
      | PNone \<Rightarrow> if rowcount = 0 then Inr (conn, 0) else Inl IntegrityError)"

definition execute_delete :: "connection \<Rightarrow> string \<Rightarrow> connection \<times> nat" where
  \<comment> \<open>\<^verbatim>\<open>DELETE FROM urls WHERE code = ?\<close>, with \<^verbatim>\<open>cursor.rowcount\<close>.\<close>
  "execute_delete conn c =
     (conn\<lparr>working := filter (\<lambda>r. fst r \<noteq> c) (working conn)\<rparr>,
      length (filter (\<lambda>r. fst r = c) (working conn)))"

definition select_url :: "connection \<Rightarrow> string \<Rightarrow> string option" where
  \<comment> \<open>\<^verbatim>\<open>SELECT url FROM urls WHERE code = ?\<close> and \<^verbatim>\<open>fetchone()\<close>: the first matching
      row's url, or \<^verbatim>\<open>None\<close>.\<close>
  "select_url conn c = map_option snd (find (\<lambda>r. fst r = c) (working conn))"

definition select_all :: "connection \<Rightarrow> row list" where
  \<comment> \<open>\<^verbatim>\<open>SELECT code, url FROM urls ORDER BY code\<close> and \<^verbatim>\<open>fetchall()\<close>.\<close>
  "select_all conn = sort_key fst (working conn)"

subsection \<open>Requests and responses\<close>

record URLCreate =
  code :: string
  url :: string

text \<open>
  What a handler returns: a dict (sent as JSON with status 200), a
  \<^verbatim>\<open>RedirectResponse(url, status_code)\<close>, or the management page. The page is modelled
  by the entries it is rendered from; the HTML around them is constant.
\<close>

datatype response =
    JSONResponse "(string \<times> string) list"
  | RedirectResponse string nat
  | HTMLResponse "row list"

text \<open>
  A handler maps the database file before the request to the file after it and either a
  response or the exception that left the handler.
\<close>

type_synonym outcome = "database \<times> (exn + response)"

definition status_code :: "exn + response \<Rightarrow> nat" where
  \<comment> \<open>The HTTP status the client sees; an exception other than \<^verbatim>\<open>HTTPException\<close> that
      leaves a handler is answered with 500.\<close>
  "status_code r =
     (case r of
        Inl (HTTPException s _) \<Rightarrow> s
      | Inl IntegrityError \<Rightarrow> 500
      | Inr (RedirectResponse _ s) \<Rightarrow> s
      | Inr _ \<Rightarrow> 200)"

definition client_error :: "exn + response \<Rightarrow> bool" where
  "client_error r = (400 \<le> status_code r \<and> status_code r < 500)"

definition server_error :: "exn + response \<Rightarrow> bool" where
  "server_error r = (500 \<le> status_code r \<and> status_code r < 600)"

subsection \<open>The handlers\<close>

definition read_root :: "database \<Rightarrow> outcome" where
  "read_root db = (db, Inr (JSONResponse [(''message'', ''Welcome to the FastAPI application!'')]))"

definition manage_page :: "database \<Rightarrow> outcome" where
  "manage_page db =
     (let conn = get_db db;
          entries = select_all conn
      in (close conn, Inr (HTMLResponse entries)))"

definition create_short_url :: "database \<Rightarrow> URLCreate \<Rightarrow> outcome" where
  "create_short_url db url_data =
     (let conn = get_db db in
      case execute_insert conn (code url_data) (url url_data) of
        Inr conn' \<Rightarrow>
          (close (commit conn'),
           Inr (JSONResponse [(''code'', code url_data), (''url'', url url_data),
                              (''message'', ''Short URL created successfully'')]))
      | Inl IntegrityError \<Rightarrow> (close conn, Inl (HTTPException 400 ''Code already exists''))
      | Inl e \<Rightarrow> (close conn, Inl e))"

definition update_url :: "database \<Rightarrow> string \<Rightarrow> (string \<rightharpoonup> param) \<Rightarrow> outcome" where
  \<comment> \<open>The path parameter \<^verbatim>\<open>code\<close> is \<open>c\<close> here. The \<^verbatim>\<open>KeyError\<close> of
      \<^verbatim>\<open>url_data["url"]\<close> is answered before a connection is opened.\<close>
  "update_url db c url_data =
     (case url_data ''url'' of
        None \<Rightarrow> (db, Inl (HTTPException 500 ''Missing 'url' field in request body''))
      | Some new_url \<Rightarrow>
          (let conn = get_db db in
           case execute_update conn new_url c of
             Inl e \<Rightarrow> (close conn, Inl e)
           | Inr (conn', rowcount) \<Rightarrow>
               (let db' = close (commit conn') in
                if rowcount = 0 then (db', Inl (HTTPException 404 ''Code not found''))
                else (db', Inr (JSONResponse [(''message'', ''URL updated successfully'')])))))"

definition delete_url :: "database \<Rightarrow> string \<Rightarrow> outcome" where
  "delete_url db c =
     (let conn = get_db db;
          (conn', rowcount) = execute_delete conn c;
          db' = close (commit conn')
      in if rowcount = 0 then (db', Inl (HTTPException 404 ''Code not found''))
         else (db', Inr (JSONResponse [(''message'', ''Entry deleted successfully'')])))"

definition resolve :: "database \<Rightarrow> string \<Rightarrow> outcome" where
  "resolve db c =
     (let conn = get_db db;
          result = select_url conn c
      in case result of
           Some u \<Rightarrow> (close conn, Inr (RedirectResponse u 302))
         | None \<Rightarrow> (close conn, Inr (RedirectResponse ''/manage'' 302)))"

subsection \<open>Routing\<close>

text \<open>
  The routes of \<^verbatim>\<open>main.py\<close> in the order of their decorators:
  \<^verbatim>\<open>GET /\<close>, \<^verbatim>\<open>GET /manage\<close>, \<^verbatim>\<open>POST /shorten\<close>, \<^verbatim>\<open>PUT /update/{code}\<close>,
  \<^verbatim>\<open>DELETE /delete/{code}\<close>, \<^verbatim>\<open>GET /{code}\<close>. A request goes to the first route whose
  method and path both match; a path parameter matches one non-empty segment without
  \<^verbatim>\<open>/\<close>. A request carries its path and, for \<^verbatim>\<open>POST\<close> and \<^verbatim>\<open>PUT\<close>, its validated
  body. \<open>None\<close> means that no handler of \<^verbatim>\<open>main.py\<close> runs (the framework answers).
  Only the routes that \<^verbatim>\<open>main.py\<close> declares are modelled, not the pages that the
  framework serves by itself, nor its redirection of paths with a trailing \<^verbatim>\<open>/\<close>.
\<close>

datatype request =
    GET string
  | POST string URLCreate
  | PUT string "string \<rightharpoonup> param"
  | DELETE string

datatype endpoint =
    Read_root
  | Manage_page
  | Create_short_url URLCreate
  | Update_url string "string \<rightharpoonup> param"
  | Delete_url string
  | Resolve string

definition path_param :: "string \<Rightarrow> string \<Rightarrow> string option" where
  \<comment> \<open>\<open>path_param ''/update/'' path\<close> matches \<^verbatim>\<open>/update/{code}\<close> and gives the code.\<close>
  "path_param prefix path =
     (let c = drop (length prefix) path in
      if take (length prefix) path = prefix \<and> c \<noteq> [] \<and> CHR ''/'' \<notin> set c then Some c
      else None)"

fun route :: "request \<Rightarrow> endpoint option" where
  "route (GET path) =
     (if path = ''/'' then Some Read_root
      else if path = ''/manage'' then Some Manage_page
      else map_option Resolve (path_param ''/'' path))"
| "route (POST path body) =
     (if path = ''/shorten'' then Some (Create_short_url body) else None)"
| "route (PUT path body) =
     map_option (\<lambda>c. Update_url c body) (path_param ''/update/'' path)"
| "route (DELETE path) = map_option Delete_url (path_param ''/delete/'' path)"

fun call :: "database \<Rightarrow> endpoint \<Rightarrow> outcome" where
  "call db Read_root = read_root db"
| "call db Manage_page = manage_page db"
| "call db (Create_short_url url_data) = create_short_url db url_data"
| "call db (Update_url c url_data) = update_url db c url_data"
| "call db (Delete_url c) = delete_url db c"
| "call db (Resolve c) = resolve db c"

definition dispatch :: "database \<Rightarrow> request \<Rightarrow> outcome option" where
  "dispatch db req = map_option (call db) (route req)"

definition run :: "database \<Rightarrow> endpoint list \<Rightarrow> database" where
  \<comment> \<open>The store after a sequence of handler calls, one after the other.\<close>
  "run db es = foldl (\<lambda>d e. fst (call d e)) db es"

subsection \<open>The order of \<^verbatim>\<open>ORDER BY code\<close>, spelled out\<close>

text \<open>
  Bytewise comparison as \<^verbatim>\<open>memcmp\<close> does it, the shorter text first when one is a
  prefix of the other. It is proved below to be the order that \<open>select_all\<close> sorts by.
\<close>

fun bytes_le :: "string \<Rightarrow> string \<Rightarrow> bool" where
  "bytes_le [] ys = True"
| "bytes_le (x # xs) [] = False"
| "bytes_le (x # xs) (y # ys) =
     ((of_char x :: nat) < of_char y \<or> (x = y \<and> bytes_le xs ys))"

section \<open>Properties\<close>

subsection \<open>What each handler computes\<close>

lemma create_short_url_absent:
  "code url_data \<notin> fst ` set db \<Longrightarrow>
   create_short_url db url_data =
     (db @ [(code url_data, url url_data)],
      Inr (JSONResponse [(''code'', code url_data), (''url'', url url_data),
                         (''message'', ''Short URL created successfully'')]))"
  by (simp add: create_short_url_def execute_insert_def get_db_def commit_def close_def)

lemma create_short_url_present:
  "code url_data \<in> fst ` set db \<Longrightarrow>
   create_short_url db url_data = (db, Inl (HTTPException 400 ''Code already exists''))"
  by (simp add: create_short_url_def execute_insert_def get_db_def close_def)

lemma rowcount_zero_iff:
  "length (filter (\<lambda>r. fst r = c) db) = 0 \<longleftrightarrow> c \<notin> fst ` set db"
  by (induction db) auto

lemma map_absent:
  "c \<notin> fst ` set db \<Longrightarrow> map (\<lambda>r. if fst r = c then (fst r, u) else r) db = db"
  by (induction db) auto

lemma filter_absent:
  "c \<notin> fst ` set db \<Longrightarrow> filter (\<lambda>r. fst r \<noteq> c) db = db"
  by (induction db) auto

lemma update_url_missing_field:
  "url_data ''url'' = None \<Longrightarrow>
   update_url db c url_data =
     (db, Inl (HTTPException 500 ''Missing 'url' field in request body''))"
  by (simp add: update_url_def)

lemma update_url_text:
  "url_data ''url'' = Some (PStr u) \<Longrightarrow>
   update_url db c url_data =
     (map (\<lambda>r. if fst r = c then (fst r, u) else r) db,
      if c \<in> fst ` set db then Inr (JSONResponse [(''message'', ''URL updated successfully'')])
      else Inl (HTTPException 404 ''Code not found''))"
  using rowcount_zero_iff [of c db]
  by (simp add: update_url_def execute_update_def get_db_def commit_def close_def Let_def)

lemma update_url_null:
  "url_data ''url'' = Some PNone \<Longrightarrow>
   update_url db c url_data =
     (db, if c \<in> fst ` set db then Inl IntegrityError
          else Inl (HTTPException 404 ''Code not found''))"
  using rowcount_zero_iff [of c db]
  by (simp add: update_url_def execute_update_def get_db_def commit_def close_def Let_def)

lemma delete_url_eq:
  "delete_url db c =
     (filter (\<lambda>r. fst r \<noteq> c) db,
      if c \<in> fst ` set db then Inr (JSONResponse [(''message'', ''Entry deleted successfully'')])
      else Inl (HTTPException 404 ''Code not found''))"
  using rowcount_zero_iff [of c db]
  by (simp add: delete_url_def execute_delete_def get_db_def commit_def close_def Let_def)

lemma select_url_map_of:
  "select_url (get_db db) c = map_of db c"
  unfolding select_url_def get_db_def by (induction db) auto

lemma resolve_eq:
  "resolve db c =
     (db, Inr (RedirectResponse (case map_of db c of Some u \<Rightarrow> u | None \<Rightarrow> ''/manage'') 302))"
  unfolding resolve_def Let_def select_url_map_of
  by (simp add: get_db_def close_def split: option.split)

lemma manage_page_eq:
  "manage_page db = (db, Inr (HTMLResponse (sort_key fst db)))"
  by (simp add: manage_page_def select_all_def get_db_def close_def)

lemma map_of_updated:
  "c \<in> fst ` set db \<Longrightarrow>
   map_of (map (\<lambda>r. if fst r = c then (fst r, u) else r) db) c = Some u"
  by (induction db) auto

lemma codes_after_delete:
  "c \<notin> fst ` set (filter (\<lambda>r. fst r \<noteq> c) db)"
  by auto

lemma select_url_absent:
  "c \<notin> fst ` set (working conn) \<Longrightarrow> select_url conn c = None"
  by (force simp: select_url_def find_None_iff)

text \<open>
  C5. Resolving a code that no row of the store has answers with a redirect (status 302)
  to the management view \<^verbatim>\<open>/manage\<close>; the answer is a response, not an exception, its
  status is neither a client nor a server error, and the store is left as it was.
\<close>

theorem resolve_unknown_redirects_to_manage:
  assumes "c \<notin> fst ` set db"
  shows "resolve db c = (db, Inr (RedirectResponse ''/manage'' 302))
       \<and> \<not> client_error (snd (resolve db c))
       \<and> \<not> server_error (snd (resolve db c))"
proof -
  have "select_url (get_db db) c = None"
    using assms by (simp add: select_url_absent get_db_def)
  then have r: "resolve db c = (db, Inr (RedirectResponse ''/manage'' 302))"
    by (simp add: resolve_def get_db_def close_def)
  then show ?thesis
    by (simp add: client_error_def server_error_def status_code_def)
qed

theorem resolve_unknown_redirects_to_manage_witness:
  "''nonexistent'' \<notin> fst ` set [(''test1'', ''https://example.com'')]
   \<and> resolve [(''test1'', ''https://example.com'')] ''nonexistent''
       = ([(''test1'', ''https://example.com'')], Inr (RedirectResponse ''/manage'' 302))"
  using resolve_unknown_redirects_to_manage
          [of "''nonexistent''" "[(''test1'', ''https://example.com'')]"]
  by simp

subsection \<open>Create, update, delete and their errors\<close>

text \<open>
  C1. After a successful create of code \<open>c\<close> with url \<open>u1\<close>, a create of the same code with
  any url fails with \<^verbatim>\<open>HTTPException(400, "Code already exists")\<close>, which is a client
  error and not a server error; the failed create leaves the store as it was, and
  resolving \<open>c\<close> still redirects to \<open>u1\<close>.
\<close>

theorem duplicate_create_rejected:
  assumes "create_short_url db d1 = (db', Inr ok)"
    and "code d2 = code d1"
  shows "create_short_url db' d2 = (db', Inl (HTTPException 400 ''Code already exists''))
       \<and> client_error (snd (create_short_url db' d2))
       \<and> \<not> server_error (snd (create_short_url db' d2))
       \<and> resolve db' (code d1) = (db', Inr (RedirectResponse (url d1) 302))"
proof -
  have absent: "code d1 \<notin> fst ` set db"
    using assms(1) create_short_url_present [of d1 db] by auto
  then have db': "db' = db @ [(code d1, url d1)]"
    using assms(1) create_short_url_absent [of d1 db] by simp
  then have "code d2 \<in> fst ` set db'"
    using assms(2) by simp
  then have dup: "create_short_url db' d2 = (db', Inl (HTTPException 400 ''Code already exists''))"
    by (rule create_short_url_present)
  have "map_of db (code d1) = None"
    using absent by (simp add: map_of_eq_None_iff)
  then have "map_of db' (code d1) = Some (url d1)"
    by (simp add: db' map_add_def)
  then have "resolve db' (code d1) = (db', Inr (RedirectResponse (url d1) 302))"
    by (simp add: resolve_eq)
  with dup show ?thesis
    by (simp add: client_error_def server_error_def status_code_def)
qed

theorem duplicate_create_rejected_witness:
  "create_short_url [] \<lparr>code = ''duplicate'', url = ''https://example.com''\<rparr>
     = ([(''duplicate'', ''https://example.com'')],
        Inr (JSONResponse [(''code'', ''duplicate''), (''url'', ''https://example.com''),
                           (''message'', ''Short URL created successfully'')]))
   \<and> create_short_url [(''duplicate'', ''https://example.com'')]
        \<lparr>code = ''duplicate'', url = ''https://another.com''\<rparr>
     = ([(''duplicate'', ''https://example.com'')],
        Inl (HTTPException 400 ''Code already exists''))
   \<and> resolve [(''duplicate'', ''https://example.com'')] ''duplicate''
     = ([(''duplicate'', ''https://example.com'')],
        Inr (RedirectResponse ''https://example.com'' 302))"
proof -
  have h: "create_short_url [] \<lparr>code = ''duplicate'', url = ''https://example.com''\<rparr>
     = ([(''duplicate'', ''https://example.com'')],
        Inr (JSONResponse [(''code'', ''duplicate''), (''url'', ''https://example.com''),
                           (''message'', ''Short URL created successfully'')]))"
    by (simp add: create_short_url_def execute_insert_def get_db_def commit_def close_def)
  show ?thesis
    using h duplicate_create_rejected
              [OF h, of "\<lparr>code = ''duplicate'', url = ''https://another.com''\<rparr>"]
    by simp
qed

text \<open>
  C2. If the store has a row for code \<open>c\<close> (with url \<open>u1\<close>) and the request body gives a text
  \<open>u2\<close> under \<^verbatim>\<open>"url"\<close>, the update succeeds, and resolving \<open>c\<close> in the resulting store
  redirects to \<open>u2\<close>; when \<open>u2\<close> differs from \<open>u1\<close>, it does not redirect to \<open>u1\<close>.
\<close>

theorem update_then_resolve:
  assumes "(c, u1) \<in> set db"
    and "url_data ''url'' = Some (PStr u2)"
  shows "snd (update_url db c url_data)
           = Inr (JSONResponse [(''message'', ''URL updated successfully'')])
       \<and> snd (resolve (fst (update_url db c url_data)) c) = Inr (RedirectResponse u2 302)
       \<and> (u2 \<noteq> u1 \<longrightarrow>
            snd (resolve (fst (update_url db c url_data)) c) \<noteq> Inr (RedirectResponse u1 302))"
proof -
  have present: "c \<in> fst ` set db"
    using assms(1) by force
  with assms(2) show ?thesis
    by (simp add: update_url_text resolve_eq map_of_updated)
qed

theorem update_then_resolve_witness:
  "(''test1'', ''https://example.com'') \<in> set [(''test1'', ''https://example.com'')]
   \<and> update_url [(''test1'', ''https://example.com'')] ''test1''
        [''url'' \<mapsto> PStr ''https://updated-example.com'']
     = ([(''test1'', ''https://updated-example.com'')],
        Inr (JSONResponse [(''message'', ''URL updated successfully'')]))
   \<and> snd (resolve [(''test1'', ''https://updated-example.com'')] ''test1'')
     = Inr (RedirectResponse ''https://updated-example.com'' 302)"
proof -
  have u: "update_url [(''test1'', ''https://example.com'')] ''test1''
        [''url'' \<mapsto> PStr ''https://updated-example.com'']
     = ([(''test1'', ''https://updated-example.com'')],
        Inr (JSONResponse [(''message'', ''URL updated successfully'')]))"
    by (simp add: update_url_def execute_update_def get_db_def commit_def close_def)
  show ?thesis
    using update_then_resolve
            [of "''test1''" "''https://example.com''" "[(''test1'', ''https://example.com'')]"
                "[''url'' \<mapsto> PStr ''https://updated-example.com'']"
                "''https://updated-example.com''"]
    by (simp add: u)
qed

text \<open>
  C3. On a code that no row of the store has, update (with a \<^verbatim>\<open>"url"\<close> field of either
  modelled kind) and delete both fail with \<^verbatim>\<open>HTTPException(404, "Code not found")\<close>.
  After a delete of \<open>c\<close>, whether it succeeded or not, no row has \<open>c\<close>, so that a second
  delete and an update of \<open>c\<close> fail in that way.
\<close>

theorem update_delete_not_found:
  assumes "url_data ''url'' = Some v"
  shows "(c \<notin> fst ` set db \<longrightarrow>
            snd (update_url db c url_data) = Inl (HTTPException 404 ''Code not found'')
          \<and> snd (delete_url db c) = Inl (HTTPException 404 ''Code not found''))
       \<and> c \<notin> fst ` set (fst (delete_url db c))
       \<and> snd (delete_url (fst (delete_url db c)) c) = Inl (HTTPException 404 ''Code not found'')
       \<and> snd (update_url (fst (delete_url db c)) c url_data)
           = Inl (HTTPException 404 ''Code not found'')"
proof -
  have upd: "snd (update_url d c url_data) = Inl (HTTPException 404 ''Code not found'')"
    if "c \<notin> fst ` set d" for d
  proof (cases v)
    case PNone
    then show ?thesis using that assms by (simp add: update_url_null)
  next
    case (PStr u)
    then show ?thesis using that assms by (simp add: update_url_text)
  qed
  have del: "snd (delete_url d c) = Inl (HTTPException 404 ''Code not found'')"
    if "c \<notin> fst ` set d" for d
    using that by (simp add: delete_url_eq)
  have gone: "c \<notin> fst ` set (fst (delete_url db c))"
    unfolding delete_url_eq fst_conv by (rule codes_after_delete)
  show ?thesis
    using upd [of db] del [of db] gone upd [OF gone] del [OF gone] by blast
qed

theorem update_delete_not_found_witness:
  "''nonexistent'' \<notin> fst ` set [(''test1'', ''https://example.com'')]
   \<and> snd (update_url [(''test1'', ''https://example.com'')] ''nonexistent''
            [''url'' \<mapsto> PStr ''https://example.com''])
     = Inl (HTTPException 404 ''Code not found'')
   \<and> snd (delete_url [(''test1'', ''https://example.com'')] ''nonexistent'')
     = Inl (HTTPException 404 ''Code not found'')
   \<and> delete_url [(''test1'', ''https://example.com'')] ''test1''
     = ([], Inr (JSONResponse [(''message'', ''Entry deleted successfully'')]))
   \<and> snd (delete_url [] ''test1'') = Inl (HTTPException 404 ''Code not found'')"
  using update_delete_not_found
          [of "[''url'' \<mapsto> PStr ''https://example.com'']" "PStr ''https://example.com''"
              "''nonexistent''" "[(''test1'', ''https://example.com'')]"]
        update_delete_not_found
          [of "[''url'' \<mapsto> PStr ''https://example.com'']" "PStr ''https://example.com''"
              "''test1''" "[(''test1'', ''https://example.com'')]"]
  by (simp add: delete_url_eq)

text \<open>
  C4. An update of a code that no row of the store has leaves the store exactly as it
  was, whatever the request body holds: no row is added.
\<close>

theorem update_unknown_leaves_store:
  assumes "c \<notin> fst ` set db"
  shows "fst (update_url db c url_data) = db"
proof (cases "url_data ''url''")
  case None
  then show ?thesis by (simp add: update_url_missing_field)
next
  case (Some v)
  show ?thesis
  proof (cases v)
    case PNone
    with Some show ?thesis by (simp add: update_url_null)
  next
    case (PStr u)
    with Some assms show ?thesis by (simp add: update_url_text map_absent)
  qed
qed

theorem update_unknown_leaves_store_witness:
  "''nonexistent'' \<notin> fst ` set [(''test1'', ''https://example.com'')]
   \<and> fst (update_url [(''test1'', ''https://example.com'')] ''nonexistent''
            [''url'' \<mapsto> PStr ''https://example.com''])
     = [(''test1'', ''https://example.com'')]"
  using update_unknown_leaves_store
          [of "''nonexistent''" "[(''test1'', ''https://example.com'')]"
              "[''url'' \<mapsto> PStr ''https://example.com'']"]
  by simp

text \<open>
  C7. When the request body has no \<^verbatim>\<open>"url"\<close> field, update answers
  \<^verbatim>\<open>HTTPException(500, "Missing 'url' field in request body")\<close> for every code and every
  store, existing code or not, and returns the store untouched: the answer does not
  depend on the store. It differs from the not-found answer in status and in detail.
\<close>

theorem update_missing_field:
  assumes "url_data ''url'' = None"
  shows "update_url db c url_data
           = (db, Inl (HTTPException 500 ''Missing 'url' field in request body''))
       \<and> snd (update_url db c url_data) \<noteq> Inl (HTTPException 404 ''Code not found'')
       \<and> status_code (snd (update_url db c url_data))
           \<noteq> status_code (Inl (HTTPException 404 ''Code not found''))
       \<and> snd (update_url db c url_data) = snd (update_url db' c' url_data)"
  using assms by (simp add: update_url_missing_field status_code_def)

theorem update_missing_field_witness:
  "update_url [(''test1'', ''https://example.com'')] ''nonexistent'' Map.empty
     = ([(''test1'', ''https://example.com'')],
        Inl (HTTPException 500 ''Missing 'url' field in request body''))
   \<and> update_url [(''test1'', ''https://example.com'')] ''test1'' Map.empty
     = ([(''test1'', ''https://example.com'')],
        Inl (HTTPException 500 ''Missing 'url' field in request body''))"
  using update_missing_field
          [of Map.empty "[(''test1'', ''https://example.com'')]" "''nonexistent''"]
        update_missing_field
          [of Map.empty "[(''test1'', ''https://example.com'')]" "''test1''"]
  by simp

subsection \<open>Listing\<close>

lemma bytes_le_iff: "bytes_le xs ys \<longleftrightarrow> xs \<le> ys"
  by (induction xs ys rule: bytes_le.induct) (auto simp: less_char_def)

lemma sorted_wrt_bytes_le: "sorted_wrt bytes_le cs = sorted cs"
proof -
  have "bytes_le = (\<le>)"
    by (intro ext) (simp add: bytes_le_iff)
  then show ?thesis by simp
qed

lemma filter_same_code:
  "distinct (map fst xs) \<Longrightarrow> k \<in> set xs \<Longrightarrow> filter (\<lambda>x. fst k = fst x) xs = [k]"
proof (induction xs)
  case Nil
  then show ?case by simp
next
  case (Cons x xs)
  show ?case
  proof (cases "k = x")
    case True
    have "filter (\<lambda>y. fst x = fst y) xs = []"
      using Cons.prems(1) by (auto simp: filter_empty_conv)
    with True show ?thesis by simp
  next
    case False
    with Cons.prems have kxs: "k \<in> set xs"
      by simp
    then have "fst k \<in> fst ` set xs"
      by (rule imageI)
    moreover have "fst x \<notin> fst ` set xs"
      using Cons.prems(1) by simp
    ultimately have "fst k \<noteq> fst x"
      by metis
    with Cons kxs show ?thesis by simp
  qed
qed

lemma sort_key_permutation:
  assumes "distinct (map fst xs)" and "mset ys = mset xs"
  shows "sort_key fst ys = sort_key fst (xs :: row list)"
proof (rule properties_for_sort_key)
  show "mset (sort_key fst xs) = mset ys"
    using assms(2) by simp
  show "sorted (map fst (sort_key fst xs))"
    by simp
  have "mset (map fst ys) = mset (map fst xs)"
    using assms(2) by (metis mset_map)
  then have dys: "distinct (map fst ys)"
    using assms(1) by (metis mset_eq_imp_distinct_iff)
  fix k
  assume "k \<in> set (sort_key fst xs)"
  then have kx: "k \<in> set xs" by simp
  then have ky: "k \<in> set ys"
    using assms(2) by (metis mset_eq_setD)
  have "filter (\<lambda>x. fst k = fst x) (sort_key fst xs) = [k]"
    using assms(1) kx by (intro filter_same_code) (simp_all add: distinct_map)
  moreover have "filter (\<lambda>x. fst k = fst x) ys = [k]"
    using dys ky by (rule filter_same_code)
  ultimately show "filter (\<lambda>x. fst k = fst x) (sort_key fst xs) = filter (\<lambda>x. fst k = fst x) ys"
    by simp
qed

text \<open>
  C6. The management page is rendered from all rows of the store (the same rows, each as
  often as it is stored), in ascending bytewise lexicographic order of their codes. For a
  store with unique codes the listing does not depend on the order in which the rows were
  inserted. On the empty store the listing is empty; the handler returns a response in
  every store.
\<close>

theorem manage_page_sorted:
  "manage_page db = (db, Inr (HTMLResponse (select_all (get_db db))))
   \<and> mset (select_all (get_db db)) = mset db
   \<and> sorted_wrt bytes_le (map fst (select_all (get_db db)))
   \<and> (distinct (map fst db) \<and> mset db' = mset db \<longrightarrow>
        select_all (get_db db') = select_all (get_db db))
   \<and> manage_page [] = ([], Inr (HTMLResponse []))"
proof -
  have "sorted_wrt bytes_le (map fst (sort_key fst db))"
    unfolding sorted_wrt_bytes_le by simp
  moreover have "sort_key fst db' = sort_key fst db"
    if "distinct (map fst db)" and "mset db' = mset db"
    using that by (rule sort_key_permutation)
  ultimately show ?thesis
    by (simp add: manage_page_def select_all_def get_db_def close_def)
qed

theorem manage_page_sorted_witness:
  "distinct (map fst [(''b'', ''https://b.com''), (''a'', ''https://a.com'')])
   \<and> mset [(''a'', ''https://a.com''), (''b'', ''https://b.com'')]
       = mset [(''b'', ''https://b.com''), (''a'', ''https://a.com'')]
   \<and> manage_page [(''b'', ''https://b.com''), (''a'', ''https://a.com'')]
       = ([(''b'', ''https://b.com''), (''a'', ''https://a.com'')],
          Inr (HTMLResponse [(''a'', ''https://a.com''), (''b'', ''https://b.com'')]))
   \<and> select_all (get_db [(''a'', ''https://a.com''), (''b'', ''https://b.com'')])
       = [(''a'', ''https://a.com''), (''b'', ''https://b.com'')]"
proof -
  have s: "select_all (get_db [(''b'', ''https://b.com''), (''a'', ''https://a.com'')])
             = [(''a'', ''https://a.com''), (''b'', ''https://b.com'')]"
    by (simp add: select_all_def get_db_def)
  show ?thesis
    using manage_page_sorted
            [of "[(''b'', ''https://b.com''), (''a'', ''https://a.com'')]"
                "[(''a'', ''https://a.com''), (''b'', ''https://b.com'')]"]
    by (simp add: s)
qed

subsection \<open>Uniqueness of codes\<close>

lemma call_preserves_distinct:
  assumes "distinct (map fst db)"
  shows "distinct (map fst (fst (call db e)))"
proof (cases e)
  case Read_root
  with assms show ?thesis by (simp add: read_root_def)
next
  case Manage_page
  with assms show ?thesis by (simp add: manage_page_eq)
next
  case (Create_short_url d)
  show ?thesis
  proof (cases "code d \<in> fst ` set db")
    case True
    with Create_short_url assms show ?thesis by (simp add: create_short_url_present)
  next
    case False
    with Create_short_url assms show ?thesis by (simp add: create_short_url_absent)
  qed
next
  case (Update_url c body)
  show ?thesis
  proof (cases "body ''url''")
    case None
    with Update_url assms show ?thesis by (simp add: update_url_missing_field)
  next
    case (Some v)
    show ?thesis
    proof (cases v)
      case PNone
      with Some Update_url assms show ?thesis by (simp add: update_url_null)
    next
      case (PStr u)
      have "map fst (map (\<lambda>r. if fst r = c then (fst r, u) else r) db) = map fst db"
        by (induction db) auto
      then have "distinct (map fst (map (\<lambda>r. if fst r = c then (fst r, u) else r) db))"
        using assms by (simp only:)
      with PStr Some Update_url show ?thesis by (simp add: update_url_text)
    qed
  qed
next
  case (Delete_url c)
  with assms show ?thesis by (simp add: delete_url_eq distinct_map_filter)
next
  case (Resolve c)
  with assms show ?thesis by (simp add: resolve_eq)
qed

lemma run_preserves_distinct:
  "distinct (map fst db) \<Longrightarrow> distinct (map fst (run db es))"
  unfolding run_def
  by (induction es arbitrary: db) (simp_all add: call_preserves_distinct)

text \<open>
  C8. In every store reached from the empty table of \<^verbatim>\<open>init_db\<close> by a sequence of
  handler calls (create, update, delete, and the reading handlers), no two rows have the
  same code; and every single handler call, started in a store with unique codes, ends
  in a store with unique codes.
\<close>

theorem code_unique_invariant:
  "distinct (map fst (run (init_db None) es))
   \<and> (distinct (map fst db) \<longrightarrow> distinct (map fst (fst (call db e))))"
  by (simp add: run_preserves_distinct call_preserves_distinct init_db_def)

theorem code_unique_invariant_witness:
  "run (init_db None)
     [Create_short_url \<lparr>code = ''a'', url = ''https://a.com''\<rparr>,
      Create_short_url \<lparr>code = ''a'', url = ''https://other.com''\<rparr>,
      Create_short_url \<lparr>code = ''b'', url = ''https://b.com''\<rparr>,
      Update_url ''a'' [''url'' \<mapsto> PStr ''https://a.org''],
      Delete_url ''b'']
     = [(''a'', ''https://a.org'')]
   \<and> distinct (map fst [(''a'', ''https://a.org'')])
   \<and> distinct (map fst (fst (call [(''a'', ''https://a.org'')]
                                 (Create_short_url \<lparr>code = ''a'', url = ''https://b.com''\<rparr>))))"
proof -
  have r: "run (init_db None)
     [Create_short_url \<lparr>code = ''a'', url = ''https://a.com''\<rparr>,
      Create_short_url \<lparr>code = ''a'', url = ''https://other.com''\<rparr>,
      Create_short_url \<lparr>code = ''b'', url = ''https://b.com''\<rparr>,
      Update_url ''a'' [''url'' \<mapsto> PStr ''https://a.org''],
      Delete_url ''b'']
     = [(''a'', ''https://a.org'')]"
    by (simp add: run_def init_db_def create_short_url_def execute_insert_def
          update_url_def execute_update_def delete_url_def execute_delete_def
          get_db_def commit_def close_def)
  show ?thesis
    using code_unique_invariant
            [of "[Create_short_url \<lparr>code = ''a'', url = ''https://a.com''\<rparr>,
                  Create_short_url \<lparr>code = ''a'', url = ''https://other.com''\<rparr>,
                  Create_short_url \<lparr>code = ''b'', url = ''https://b.com''\<rparr>,
                  Update_url ''a'' [''url'' \<mapsto> PStr ''https://a.org''],
                  Delete_url ''b'']"
                "[(''a'', ''https://a.org'')]"
                "Create_short_url \<lparr>code = ''a'', url = ''https://b.com''\<rparr>"]
    unfolding r by simp
qed

subsection \<open>The code \<^verbatim>\<open>manage\<close>\<close>

lemma route_never_resolve_manage: "route req \<noteq> Some (Resolve ''manage'')"
proof (cases req)
  case (GET path)
  show ?thesis
  proof
    assume "route req = Some (Resolve ''manage'')"
    with GET have ne: "path \<noteq> ''/manage''"
      and pp: "path_param ''/'' path = Some ''manage''"
      by (auto split: if_splits)
    from pp have "take 1 path = ''/''" and "drop 1 path = ''manage''"
      by (auto simp: path_param_def Let_def split: if_splits)
    then have "path = ''/manage''"
      using append_take_drop_id [of 1 path] by simp
    with ne show False by simp
  qed
next
  case (POST path body)
  then show ?thesis by simp
next
  case (PUT path body)
  then show ?thesis by auto
next
  case (DELETE path)
  then show ?thesis by auto
qed

text \<open>
  C10. A row with the code \<^verbatim>\<open>manage\<close> can be created (\<^verbatim>\<open>POST /shorten\<close>, when no row
  has that code), updated (\<^verbatim>\<open>PUT /update/manage\<close>) and deleted
  (\<^verbatim>\<open>DELETE /delete/manage\<close>) when a row has it, and it is among the rows the management
  page lists. But \<^verbatim>\<open>GET /manage\<close> goes to the management page, declared before
  \<^verbatim>\<open>/{code}\<close>, and no request at all is routed to \<^verbatim>\<open>resolve\<close> with the code
  \<^verbatim>\<open>manage\<close>.
\<close>

theorem manage_code_not_resolvable:
  "(''manage'' \<notin> fst ` set db \<longrightarrow>
      dispatch db (POST ''/shorten'' \<lparr>code = ''manage'', url = u\<rparr>)
        = Some (db @ [(''manage'', u)],
                Inr (JSONResponse [(''code'', ''manage''), (''url'', u),
                                   (''message'', ''Short URL created successfully'')])))
   \<and> (''manage'' \<in> fst ` set db \<longrightarrow>
        dispatch db (PUT ''/update/manage'' [''url'' \<mapsto> PStr u])
          = Some (map (\<lambda>r. if fst r = ''manage'' then (fst r, u) else r) db,
                  Inr (JSONResponse [(''message'', ''URL updated successfully'')]))
      \<and> dispatch db (DELETE ''/delete/manage'')
          = Some (filter (\<lambda>r. fst r \<noteq> ''manage'') db,
                  Inr (JSONResponse [(''message'', ''Entry deleted successfully'')])))
   \<and> set (select_all (get_db db)) = set db
   \<and> route (GET ''/manage'') = Some Manage_page
   \<and> dispatch db (GET ''/manage'') = Some (db, Inr (HTMLResponse (select_all (get_db db))))
   \<and> route req \<noteq> Some (Resolve ''manage'')"
proof -
  have put: "route (PUT ''/update/manage'' b) = Some (Update_url ''manage'' b)" for b
    by (simp add: path_param_def)
  have del: "route (DELETE ''/delete/manage'') = Some (Delete_url ''manage'')"
    by (simp add: path_param_def)
  have create: "dispatch db (POST ''/shorten'' \<lparr>code = ''manage'', url = u\<rparr>)
        = Some (db @ [(''manage'', u)],
                Inr (JSONResponse [(''code'', ''manage''), (''url'', u),
                                   (''message'', ''Short URL created successfully'')]))"
    if "''manage'' \<notin> fst ` set db"
    using that create_short_url_absent [of "\<lparr>code = ''manage'', url = u\<rparr>" db]
    by (simp add: dispatch_def)
  have "[''url'' \<mapsto> PStr u] ''url'' = Some (PStr u)"
    by simp
  then have update: "dispatch db (PUT ''/update/manage'' [''url'' \<mapsto> PStr u])
          = Some (map (\<lambda>r. if fst r = ''manage'' then (fst r, u) else r) db,
                  Inr (JSONResponse [(''message'', ''URL updated successfully'')]))"
    if "''manage'' \<in> fst ` set db"
    using that update_url_text [of "[''url'' \<mapsto> PStr u]" u db "''manage''"]
    by (simp only: dispatch_def put option.map call.simps if_True)
  have delete: "dispatch db (DELETE ''/delete/manage'')
          = Some (filter (\<lambda>r. fst r \<noteq> ''manage'') db,
                  Inr (JSONResponse [(''message'', ''Entry deleted successfully'')]))"
    if "''manage'' \<in> fst ` set db"
    using that delete_url_eq [of db "''manage''"]
    by (simp only: dispatch_def del option.map call.simps if_True)
  have listed: "set (select_all (get_db db)) = set db"
    by (simp add: select_all_def get_db_def)
  have get: "route (GET ''/manage'') = Some Manage_page"
    by simp
  have page: "dispatch db (GET ''/manage'') = Some (db, Inr (HTMLResponse (select_all (get_db db))))"
    by (simp add: dispatch_def manage_page_def get_db_def close_def)
  show ?thesis
    using create update delete listed get page route_never_resolve_manage [of req]
    by blast
qed

theorem manage_code_not_resolvable_witness:
  "dispatch [] (POST ''/shorten'' \<lparr>code = ''manage'', url = ''https://example.com''\<rparr>)
     = Some ([(''manage'', ''https://example.com'')],
             Inr (JSONResponse [(''code'', ''manage''), (''url'', ''https://example.com''),
                                (''message'', ''Short URL created successfully'')]))
   \<and> dispatch [(''manage'', ''https://example.com'')] (GET ''/manage'')
     = Some ([(''manage'', ''https://example.com'')],
             Inr (HTMLResponse [(''manage'', ''https://example.com'')]))
   \<and> dispatch [(''manage'', ''https://example.com'')]
        (PUT ''/update/manage'' [''url'' \<mapsto> PStr ''https://gh.io''])
     = Some ([(''manage'', ''https://gh.io'')],
             Inr (JSONResponse [(''message'', ''URL updated successfully'')]))
   \<and> dispatch [(''manage'', ''https://example.com'')] (DELETE ''/delete/manage'')
     = Some ([], Inr (JSONResponse [(''message'', ''Entry deleted successfully'')]))
   \<and> route (GET ''/manage'') \<noteq> Some (Resolve ''manage'')
   \<and> route (GET ''/github'') = Some (Resolve ''github'')"
proof -
  have absent: "''manage'' \<notin> fst ` set ([] :: row list)"
    by simp
  have present: "''manage'' \<in> fst ` set [(''manage'', ''https://example.com'')]"
    by simp
  have sorted1: "select_all (get_db [(''manage'', ''https://example.com'')])
                 = [(''manage'', ''https://example.com'')]"
    by (simp add: select_all_def get_db_def)
  have other: "route (GET ''/github'') = Some (Resolve ''github'')"
    by (simp add: path_param_def)
  note a = manage_code_not_resolvable
             [of "[]" "''https://example.com''" "GET ''/manage''"]
  note b = manage_code_not_resolvable
             [of "[(''manage'', ''https://example.com'')]" "''https://gh.io''" "GET ''/manage''"]
  have 1: "dispatch [] (POST ''/shorten'' \<lparr>code = ''manage'', url = ''https://example.com''\<rparr>)
     = Some ([(''manage'', ''https://example.com'')],
             Inr (JSONResponse [(''code'', ''manage''), (''url'', ''https://example.com''),
                                (''message'', ''Short URL created successfully'')]))"
    using a absent by simp
  have 2: "dispatch [(''manage'', ''https://example.com'')] (GET ''/manage'')
     = Some ([(''manage'', ''https://example.com'')],
             Inr (HTMLResponse [(''manage'', ''https://example.com'')]))"
    using b unfolding sorted1 by blast
  have 3: "dispatch [(''manage'', ''https://example.com'')]
        (PUT ''/update/manage'' [''url'' \<mapsto> PStr ''https://gh.io''])
     = Some ([(''manage'', ''https://gh.io'')],
             Inr (JSONResponse [(''message'', ''URL updated successfully'')]))"
    using b present by simp
  have 4: "dispatch [(''manage'', ''https://example.com'')] (DELETE ''/delete/manage'')
     = Some ([], Inr (JSONResponse [(''message'', ''Entry deleted successfully'')]))"
    using b present by simp
  have 5: "route (GET ''/manage'') \<noteq> Some (Resolve ''manage'')"
    using b by blast
  show ?thesis
    using 1 2 3 4 5 other by blast
qed

end
